theory Spec2Isabelle
  imports Main "HOL-Library.Word"
begin

section \<open>Machine integers\<close>

text \<open>
  Terraform hands integers to the provider as Go \<^verbatim>\<open>int\<close> (64 bits on the platforms the
  provider is built for); the Azure SDK structures carry \<^verbatim>\<open>int32\<close>. The conversion
  \<^verbatim>\<open>int32(v)\<close> keeps the low 32 bits; reading an \<^verbatim>\<open>int32\<close> back as
  \<^verbatim>\<open>int\<close> sign-extends.
\<close>

type_synonym go_int = "64 word"
type_synonym int32 = "32 word"

definition int32_of_int :: "go_int \<Rightarrow> int32" where
  "int32_of_int v = ucast v"

definition int_of_int32 :: "int32 \<Rightarrow> go_int" where
  "int_of_int32 v = scast v"

definition fits_int32 :: "go_int \<Rightarrow> bool" where
  "fits_int32 v = (- (2 ^ 31) \<le> sint v \<and> sint v < 2 ^ 31)"

section \<open>Data model of the schedule codec\<close>

text \<open>
  \<^verbatim>\<open>d.Get("schedule")\<close> is a list of blocks. A block read through the schema is either
  \<^verbatim>\<open>nil\<close> or a map that holds every key of the schema with a value of the schema's type,
  so the type assertions of \<^verbatim>\<open>expandDataFactorySchedule\<close> hold by construction.
\<close>

record MonthlyConfig =
  weekday :: string
  week :: go_int

record ScheduleConfig =
  days_of_month :: "go_int list"
  days_of_week :: "string list"
  hours :: "go_int list"
  minutes :: "go_int list"
  monthly :: "MonthlyConfig list"

text \<open>The SDK structures: every pointer field is an option.\<close>

record RecurrenceScheduleOccurrence =
  Day :: string
  Occurrence :: "int32 option"

record RecurrenceSchedule =
  Minutes :: "int32 list option"
  Hours :: "int32 list option"
  WeekDays :: "string list option"
  MonthDays :: "int32 list option"
  MonthlyOccurrences :: "RecurrenceScheduleOccurrence list option"

text \<open>
  The maps built by \<^verbatim>\<open>flattenDataFactorySchedule\<close>: a key is either set or missing,
  and the integers are still \<^verbatim>\<open>int32\<close>.
\<close>

record MonthlyState =
  st_weekday :: string
  st_week :: "int32 option"

record ScheduleState =
  st_minutes :: "int32 list option"
  st_hours :: "int32 list option"
  st_days_of_week :: "string list option"
  st_days_of_month :: "int32 list option"
  st_monthly :: "MonthlyState list option"

section \<open>The schedule codec\<close>

text \<open>
  Modelled from the spec: \<^verbatim>\<open>utils.ExpandInt32Slice\<close> is not under src/. The spec has
  integer sequences copied verbatim, without clamping; the result is a pointer to a slice
  of \<^verbatim>\<open>int32\<close>, each element converted from the \<^verbatim>\<open>int\<close> of the input.
\<close>

definition ExpandInt32Slice :: "go_int list \<Rightarrow> int32 list option" where
  "ExpandInt32Slice input = Some (map int32_of_int input)"

text \<open>
  Modelled from the spec: \<^verbatim>\<open>utils.FlattenInt32Slice\<close> is not under src/. Each populated
  remote field is copied back; a nil pointer gives the empty sequence.
\<close>

definition FlattenInt32Slice :: "int32 list option \<Rightarrow> int32 list" where
  "FlattenInt32Slice input = (case input of None \<Rightarrow> [] | Some xs \<Rightarrow> xs)"

definition expandMonthlyOccurrence :: "MonthlyConfig \<Rightarrow> RecurrenceScheduleOccurrence" where
  "expandMonthlyOccurrence v = \<lparr>Day = weekday v, Occurrence = Some (int32_of_int (week v))\<rparr>"

fun expandDataFactorySchedule :: "ScheduleConfig option list \<Rightarrow> RecurrenceSchedule option" where
  "expandDataFactorySchedule [] = None"
| "expandDataFactorySchedule (None # _) = None"
| "expandDataFactorySchedule (Some blk # _) =
    (let weekDays = days_of_week blk;
         monthlyOccurrences = map expandMonthlyOccurrence (monthly blk)
     in Some \<lparr>
          Minutes = (if length (minutes blk) > 0 then ExpandInt32Slice (minutes blk) else None),
          Hours = (if length (hours blk) > 0 then ExpandInt32Slice (hours blk) else None),
          WeekDays = (if length weekDays > 0 then Some weekDays else None),
          MonthDays =
            (if length (days_of_month blk) > 0 then ExpandInt32Slice (days_of_month blk) else None),
          MonthlyOccurrences =
            (if length monthlyOccurrences > 0 then Some monthlyOccurrences else None)\<rparr>)"

definition flattenMonthlyOccurrence :: "RecurrenceScheduleOccurrence \<Rightarrow> MonthlyState" where
  "flattenMonthlyOccurrence v = \<lparr>st_weekday = Day v, st_week = Occurrence v\<rparr>"

fun flattenDataFactorySchedule :: "RecurrenceSchedule option \<Rightarrow> ScheduleState list" where
  "flattenDataFactorySchedule None = []"
| "flattenDataFactorySchedule (Some schedule) =
    [\<lparr>st_minutes =
        (case Minutes schedule of None \<Rightarrow> None
         | Some xs \<Rightarrow> Some (FlattenInt32Slice (Some xs))),
      st_hours =
        (case Hours schedule of None \<Rightarrow> None
         | Some xs \<Rightarrow> Some (FlattenInt32Slice (Some xs))),
      st_days_of_week =
        (case WeekDays schedule of None \<Rightarrow> None | Some ws \<Rightarrow> Some ws),
      st_days_of_month =
        (case MonthDays schedule of None \<Rightarrow> None
         | Some xs \<Rightarrow> Some (FlattenInt32Slice (Some xs))),
      st_monthly =
        (case MonthlyOccurrences schedule of None \<Rightarrow> None
         | Some os \<Rightarrow> Some (map flattenMonthlyOccurrence os))\<rparr>]"

subsection \<open>Reading a stored block back through the schema\<close>

text \<open>
  What \<^verbatim>\<open>d.Set("schedule", ...)\<close> followed by \<^verbatim>\<open>d.Get("schedule")\<close> does to the
  value: a key that was not set reads as the zero value of its type (the empty list, 0),
  an \<^verbatim>\<open>int32\<close> reads as \<^verbatim>\<open>int\<close>, and a block without any key reads as
  \<^verbatim>\<open>nil\<close>. Only through this typed read can the output of the flattener reach the
  expander again.
\<close>

definition schemaReadInts :: "int32 list option \<Rightarrow> go_int list" where
  "schemaReadInts f = (case f of None \<Rightarrow> [] | Some xs \<Rightarrow> map int_of_int32 xs)"

definition schemaReadMonthly :: "MonthlyState \<Rightarrow> MonthlyConfig" where
  "schemaReadMonthly m =
     \<lparr>weekday = st_weekday m,
      week = (case st_week m of None \<Rightarrow> 0 | Some w \<Rightarrow> int_of_int32 w)\<rparr>"

definition schemaReadBlock :: "ScheduleState \<Rightarrow> ScheduleConfig option" where
  "schemaReadBlock s =
     (if st_minutes s = None \<and> st_hours s = None \<and> st_days_of_week s = None
         \<and> st_days_of_month s = None \<and> st_monthly s = None
      then None
      else Some \<lparr>
        days_of_month = schemaReadInts (st_days_of_month s),
        days_of_week = (case st_days_of_week s of None \<Rightarrow> [] | Some ws \<Rightarrow> ws),
        hours = schemaReadInts (st_hours s),
        minutes = schemaReadInts (st_minutes s),
        monthly = (case st_monthly s of None \<Rightarrow> [] | Some ms \<Rightarrow> map schemaReadMonthly ms)\<rparr>)"

definition schemaReadSchedule :: "ScheduleState list \<Rightarrow> ScheduleConfig option list" where
  "schemaReadSchedule v = map schemaReadBlock v"

text \<open>One encode/decode pass, as the declarative side sees it.\<close>

definition codecPass :: "ScheduleConfig option list \<Rightarrow> ScheduleConfig option list" where
  "codecPass x = schemaReadSchedule (flattenDataFactorySchedule (expandDataFactorySchedule x))"

definition populated :: "ScheduleConfig \<Rightarrow> bool" where
  "populated blk =
     (days_of_month blk \<noteq> [] \<or> days_of_week blk \<noteq> [] \<or> hours blk \<noteq> []
      \<or> minutes blk \<noteq> [] \<or> monthly blk \<noteq> [])"


section \<open>Identifiers, remote objects and the resource data\<close>

record DataFactoryId =
  df_SubscriptionId :: string
  df_ResourceGroup :: string
  df_FactoryName :: string

record TriggerId =
  SubscriptionId :: string
  ResourceGroup :: string
  FactoryName :: string
  Name :: string

definition NewDataFactoryID :: "string \<Rightarrow> string \<Rightarrow> string \<Rightarrow> DataFactoryId" where
  "NewDataFactoryID subscriptionId resourceGroup factoryName =
     \<lparr>df_SubscriptionId = subscriptionId, df_ResourceGroup = resourceGroup,
      df_FactoryName = factoryName\<rparr>"

definition NewTriggerID :: "string \<Rightarrow> string \<Rightarrow> string \<Rightarrow> string \<Rightarrow> TriggerId" where
  "NewTriggerID subscriptionId resourceGroup factoryName triggerName =
     \<lparr>SubscriptionId = subscriptionId, ResourceGroup = resourceGroup,
      FactoryName = factoryName, Name = triggerName\<rparr>"

text \<open>Timestamps are opaque; parsing and formatting belong to the environment.\<close>

type_synonym Time = nat

record PipelineReference =
  ReferenceName :: "string option"
  ReferenceType :: "string option"

record TriggerPipelineReference =
  PipelineReference :: "PipelineReference option"
  Parameters :: "(string \<times> string) list"

record ScheduleTriggerRecurrence =
  Frequency :: string
  Interval :: "int32 option"
  StartTime :: "Time option"
  EndTime :: "Time option"
  Schedule :: "RecurrenceSchedule option"

record ScheduleTriggerTypeProperties =
  Recurrence :: "ScheduleTriggerRecurrence option"

record ScheduleTrigger =
  TypeProperties :: "ScheduleTriggerTypeProperties option"
  Pipelines :: "TriggerPipelineReference list option"
  Description :: "string option"
  RuntimeState :: string
  Annotations :: "string list option"

text \<open>The endpoint hosts several kinds of trigger; only one of them is the schedule trigger.\<close>

datatype BasicTrigger =
  ScheduleTriggerKind ScheduleTrigger
| OtherTriggerKind string

fun AsScheduleTrigger :: "BasicTrigger \<Rightarrow> ScheduleTrigger option \<times> bool" where
  "AsScheduleTrigger (ScheduleTriggerKind st) = (Some st, True)"
| "AsScheduleTrigger (OtherTriggerKind k) = (None, False)"

definition TypeBasicTriggerTypeScheduleTrigger :: string where
  "TypeBasicTriggerTypeScheduleTrigger = ''ScheduleTrigger''"

definition TriggerRuntimeStateStarted :: string where
  "TriggerRuntimeStateStarted = ''Started''"

record TriggerResource =
  StatusCode :: "nat option"
  Properties :: "BasicTrigger option"
  ID :: "string option"
  ResourceName :: "string option"
  ResourceType :: "string option"

text \<open>
  Modelled from the spec: \<^verbatim>\<open>utils.ResponseWasNotFound\<close> is not under src/. The spec's
  \<^verbatim>\<open>get\<close> answers with the object or with NotFound; NotFound is the HTTP status 404 of
  the response, when there is a response.
\<close>

definition ResponseWasNotFound :: "TriggerResource \<Rightarrow> bool" where
  "ResponseWasNotFound resp = (StatusCode resp = Some 404)"

text \<open>
  Modelled from the spec: \<^verbatim>\<open>flattenDataFactoryAnnotations\<close> is not under src/. The
  spec has annotations defaulted to an empty sequence when absent.
\<close>

definition flattenDataFactoryAnnotations :: "string list option \<Rightarrow> string list" where
  "flattenDataFactoryAnnotations input = (case input of None \<Rightarrow> [] | Some xs \<Rightarrow> xs)"

text \<open>
  The resource data \<^verbatim>\<open>d\<close>: one field for each key of the schema, the identifier and
  the new-resource flag. \<^verbatim>\<open>d.Get\<close> reads a field, \<^verbatim>\<open>d.Set\<close> writes it.
\<close>

record ResourceData =
  ResourceId :: string
  IsNewResource :: bool
  name :: string
  resource_group_name :: string
  data_factory_name :: string
  data_factory_id :: string
  description :: string
  schedule :: "ScheduleConfig option list"
  start_time :: string
  end_time :: string
  frequency :: string
  interval :: go_int
  activated :: bool
  pipeline_name :: string
  pipeline_parameters :: "(string \<times> string) list"
  annotations :: "string list"

text \<open>\<^verbatim>\<open>d.Set\<close> of a nil pointer stores the zero value of the field.\<close>

definition stringValue :: "string option \<Rightarrow> string" where
  "stringValue p = (case p of None \<Rightarrow> [] | Some s \<Rightarrow> s)"

definition intValue :: "int32 option \<Rightarrow> go_int" where
  "intValue p = (case p of None \<Rightarrow> 0 | Some v \<Rightarrow> int_of_int32 v)"

section \<open>Errors, remote calls and the environment\<close>

datatype error =
  ParseError string
| NilDereference string
| CheckingPresenceError TriggerId string
| ImportAsExistsError string string
| CreatingError TriggerId string
| StartingError TriggerId string
| WaitingOnStartError TriggerId string
| RetrievingError TriggerId string
| ClassifyingError TriggerId string string
| StoppingError TriggerId string
| WaitingToStopError TriggerId string
| DeletingError TriggerId string

type_synonym Future = nat

text \<open>
  Every call that reaches the remote system is logged in order, with the error it returned
  (\<open>None\<close> when it succeeded); a \<^verbatim>\<open>Get\<close> is logged with the object it returned too.
\<close>

datatype call =
  CallGet TriggerId TriggerResource "string option"
| CallCreateOrUpdate TriggerId TriggerResource "string option"
| CallStart TriggerId "string option"
| CallStop TriggerId "string option"
| CallDelete TriggerId "string option"
| CallWaitForCompletion Future "string option"

text \<open>
  The collaborators of the controller: the triggers client over a remote state \<open>'r\<close>
  (each operation returns its Go results and the next remote state; an error is
  \<open>Some cause\<close>, and a wait that runs into the deadline of the context is an error of the
  wait), the identifier parsers and formatters of the \<^verbatim>\<open>parse\<close> package, and the clock.
\<close>

record 'r Env =
  AccountSubscriptionId :: string
  client_Get :: "TriggerId \<Rightarrow> 'r \<Rightarrow> (TriggerResource \<times> string option) \<times> 'r"
  client_CreateOrUpdate :: "TriggerId \<Rightarrow> TriggerResource \<Rightarrow> 'r \<Rightarrow> string option \<times> 'r"
  client_Start :: "TriggerId \<Rightarrow> 'r \<Rightarrow> (Future \<times> string option) \<times> 'r"
  client_Stop :: "TriggerId \<Rightarrow> 'r \<Rightarrow> (Future \<times> string option) \<times> 'r"
  client_Delete :: "TriggerId \<Rightarrow> 'r \<Rightarrow> string option \<times> 'r"
  WaitForCompletionRef :: "Future \<Rightarrow> 'r \<Rightarrow> string option \<times> 'r"
  parse_DataFactoryID :: "string \<Rightarrow> string + DataFactoryId"
  parse_TriggerID :: "string \<Rightarrow> string + TriggerId"
  TriggerId_ID :: "TriggerId \<Rightarrow> string"
  DataFactoryId_ID :: "DataFactoryId \<Rightarrow> string"
  time_Parse :: "string \<Rightarrow> Time"
  time_Format :: "Time \<Rightarrow> string"
  time_Now :: Time

text \<open>What a run of an operation leaves behind.\<close>

record 'r outcome =
  Err :: "error option"
  Data :: ResourceData
  Remote :: 'r
  Calls :: "call list"

section \<open>The read path\<close>

text \<open>Lines 362 to 375: the recurrence of a schedule trigger, written into the resource data.\<close>

definition setRecurrence :: "'r Env \<Rightarrow> ScheduleTriggerRecurrence \<Rightarrow> ResourceData \<Rightarrow> ResourceData" where
  "setRecurrence env recurrence d =
     (let d1 = (case StartTime recurrence of None \<Rightarrow> d
                | Some v \<Rightarrow> d\<lparr>start_time := time_Format env v\<rparr>);
          d2 = (case EndTime recurrence of None \<Rightarrow> d1
                | Some v \<Rightarrow> d1\<lparr>end_time := time_Format env v\<rparr>);
          d3 = d2\<lparr>frequency := Frequency recurrence\<rparr>;
          d4 = d3\<lparr>interval := intValue (Interval recurrence)\<rparr>
      in case Schedule recurrence of None \<Rightarrow> d4
         | Some sched \<Rightarrow>
             d4\<lparr>schedule := schemaReadSchedule (flattenDataFactorySchedule (Some sched))\<rparr>)"

text \<open>Lines 377 to 385: only the first entry of the pipelines is read.\<close>

definition setPipelines :: "TriggerPipelineReference list option \<Rightarrow> ResourceData \<Rightarrow> ResourceData" where
  "setPipelines pipelines d =
     (case pipelines of None \<Rightarrow> d
      | Some [] \<Rightarrow> d
      | Some (p # _) \<Rightarrow>
          (let d1 = (case PipelineReference p of None \<Rightarrow> d
                     | Some reference \<Rightarrow> d\<lparr>pipeline_name := stringValue (ReferenceName reference)\<rparr>)
           in d1\<lparr>pipeline_parameters := Parameters p\<rparr>))"

text \<open>
  Lines 359 to 393. The recurrence is a field of the embedded pointer to the type
  properties: reading it through a nil pointer stops the program.
\<close>

definition setScheduleTrigger :: "'r Env \<Rightarrow> ScheduleTrigger \<Rightarrow> ResourceData \<Rightarrow> error option \<times> ResourceData" where
  "setScheduleTrigger env scheduleTriggerProps d =
     (let d1 = d\<lparr>activated := (RuntimeState scheduleTriggerProps = TriggerRuntimeStateStarted)\<rparr>
      in case TypeProperties scheduleTriggerProps of
           None \<Rightarrow> (Some (NilDereference ''scheduleTriggerProps.ScheduleTriggerTypeProperties''), d1)
         | Some tp \<Rightarrow>
             (let d2 = (case Recurrence tp of None \<Rightarrow> d1
                        | Some recurrence \<Rightarrow> setRecurrence env recurrence d1);
                  d3 = setPipelines (Pipelines scheduleTriggerProps) d2;
                  d4 = d3\<lparr>annotations :=
                         flattenDataFactoryAnnotations (Annotations scheduleTriggerProps)\<rparr>
              in (None, d4\<lparr>description := stringValue (Description scheduleTriggerProps)\<rparr>)))"

definition resourceDataFactoryTriggerScheduleRead :: "'r Env \<Rightarrow> ResourceData \<Rightarrow> 'r \<Rightarrow> 'r outcome" where
  "resourceDataFactoryTriggerScheduleRead env d r =
     (case parse_TriggerID env (ResourceId d) of
        Inl e \<Rightarrow> \<lparr>Err = Some (ParseError e), Data = d, Remote = r, Calls = []\<rparr>
      | Inr tid \<Rightarrow>
          (let dataFactoryId =
                 NewDataFactoryID (SubscriptionId tid) (ResourceGroup tid) (FactoryName tid);
               ((resp, err), r1) = client_Get env tid r;
               cs = [CallGet tid resp err]
           in case err of
                Some cause \<Rightarrow>
                  (if ResponseWasNotFound resp
                   then \<lparr>Err = None, Data = d\<lparr>ResourceId := []\<rparr>, Remote = r1, Calls = cs\<rparr>
                   else \<lparr>Err = Some (RetrievingError tid cause), Data = d, Remote = r1,
                         Calls = cs\<rparr>)
              | None \<Rightarrow>
                  (let d1 = d\<lparr>name := stringValue (ResourceName resp)\<rparr>;
                       d2 = d1\<lparr>resource_group_name := ResourceGroup tid\<rparr>;
                       d3 = d2\<lparr>data_factory_name := FactoryName tid\<rparr>;
                       d4 = d3\<lparr>data_factory_id := DataFactoryId_ID env dataFactoryId\<rparr>
                   in case Properties resp of
                        None \<Rightarrow>
                          \<lparr>Err = Some (NilDereference ''resp.Properties''), Data = d4,
                           Remote = r1, Calls = cs\<rparr>
                      | Some props \<Rightarrow>
                          (let (scheduleTriggerProps, ok) = AsScheduleTrigger props
                           in if \<not> ok
                              then (case ResourceType resp of
                                      None \<Rightarrow>
                                        \<lparr>Err = Some (NilDereference ''resp.Type''), Data = d4,
                                         Remote = r1, Calls = cs\<rparr>
                                    | Some t \<Rightarrow>
                                        \<lparr>Err = Some (ClassifyingError tid
                                                 TypeBasicTriggerTypeScheduleTrigger t),
                                         Data = d4, Remote = r1, Calls = cs\<rparr>)
                              else (case scheduleTriggerProps of
                                      None \<Rightarrow> \<lparr>Err = None, Data = d4, Remote = r1, Calls = cs\<rparr>
                                    | Some st \<Rightarrow>
                                        (let (e, d5) = setScheduleTrigger env st d4
                                         in \<lparr>Err = e, Data = d5, Remote = r1,
                                             Calls = cs\<rparr>))))))"

section \<open>The delete path\<close>

definition resourceDataFactoryTriggerScheduleDelete :: "'r Env \<Rightarrow> ResourceData \<Rightarrow> 'r \<Rightarrow> 'r outcome" where
  "resourceDataFactoryTriggerScheduleDelete env d r =
     (case parse_TriggerID env (ResourceId d) of
        Inl e \<Rightarrow> \<lparr>Err = Some (ParseError e), Data = d, Remote = r, Calls = []\<rparr>
      | Inr tid \<Rightarrow>
          (let ((future, err), r1) = client_Stop env tid r
           in case err of
                Some cause \<Rightarrow>
                  \<lparr>Err = Some (StoppingError tid cause), Data = d, Remote = r1,
                   Calls = [CallStop tid err]\<rparr>
              | None \<Rightarrow>
                  (let (werr, r2) = WaitForCompletionRef env future r1
                   in case werr of
                        Some cause \<Rightarrow>
                          \<lparr>Err = Some (WaitingToStopError tid cause), Data = d, Remote = r2,
                           Calls = [CallStop tid err, CallWaitForCompletion future werr]\<rparr>
                      | None \<Rightarrow>
                          (let (derr, r3) = client_Delete env tid r2
                           in \<lparr>Err = (case derr of None \<Rightarrow> None
                                       | Some cause \<Rightarrow> Some (DeletingError tid cause)),
                               Data = d, Remote = r3,
                               Calls = [CallStop tid err, CallWaitForCompletion future werr,
                                        CallDelete tid derr]\<rparr>))))"

section \<open>The create-or-update path\<close>

text \<open>
  Lines 234 to 245: the factory identifier, a pointer that stays nil when neither selector
  is set.
\<close>

definition resolveDataFactoryId :: "'r Env \<Rightarrow> ResourceData \<Rightarrow> error + DataFactoryId option" where
  "resolveDataFactoryId env d =
     (let dataFactoryId =
            (if data_factory_name d \<noteq> []
             then Some (NewDataFactoryID (AccountSubscriptionId env) (resource_group_name d)
                          (data_factory_name d))
             else None)
      in if data_factory_id d \<noteq> []
         then (case parse_DataFactoryID env (data_factory_id d) of
                 Inl e \<Rightarrow> Inl (ParseError e)
               | Inr parsed \<Rightarrow> Inr (Some parsed))
         else Inr dataFactoryId)"

text \<open>Lines 248 to 259: a new resource must not exist yet.\<close>

definition checkExisting :: "'r Env \<Rightarrow> ResourceData \<Rightarrow> TriggerId \<Rightarrow> 'r \<Rightarrow> error option \<times> 'r \<times> call list" where
  "checkExisting env d tid r =
     (if IsNewResource d
      then (let ((existing, err), r1) = client_Get env tid r;
                cs = [CallGet tid existing err]
            in case (case err of None \<Rightarrow> None
                     | Some cause \<Rightarrow>
                         if \<not> ResponseWasNotFound existing then Some cause else None) of
                 Some cause \<Rightarrow> (Some (CheckingPresenceError tid cause), r1, cs)
               | None \<Rightarrow>
                   (case ID existing of
                      None \<Rightarrow> (None, r1, cs)
                    | Some existingId \<Rightarrow>
                        if existingId \<noteq> []
                        then (Some (ImportAsExistsError
                                      ''azurerm_data_factory_trigger_schedule'' existingId),
                              r1, cs)
                        else (None, r1, cs)))
      else (None, r, []))"

text \<open>Lines 261 to 305: the payload of \<^verbatim>\<open>CreateOrUpdate\<close>.\<close>

definition buildTrigger :: "'r Env \<Rightarrow> ResourceData \<Rightarrow> TriggerResource" where
  "buildTrigger env d =
     (let recurrence =
            \<lparr>Frequency = frequency d,
             Interval = Some (int32_of_int (interval d)),
             StartTime =
               Some (if start_time d \<noteq> [] then time_Parse env (start_time d)
                     else time_Parse env (time_Format env (time_Now env))),
             EndTime = (if end_time d \<noteq> [] then Some (time_Parse env (end_time d)) else None),
             Schedule = expandDataFactorySchedule (schedule d)\<rparr>;
          props = \<lparr>Recurrence = Some recurrence\<rparr>;
          reference =
            \<lparr>ReferenceName = Some (pipeline_name d),
             ReferenceType = Some ''PipelineReference''\<rparr>;
          scheduleProps =
            \<lparr>TypeProperties = Some props,
             Pipelines =
               Some [\<lparr>PipelineReference = Some reference,
                      Parameters = pipeline_parameters d\<rparr>],
             Description = Some (description d),
             RuntimeState = [],
             Annotations = (if annotations d \<noteq> [] then Some (annotations d) else None)\<rparr>
      in \<lparr>StatusCode = None, Properties = Some (ScheduleTriggerKind scheduleProps),
          ID = None, ResourceName = None, ResourceType = None\<rparr>)"

text \<open>Lines 311 to 319: start the trigger and wait, if it is to be activated.\<close>

definition startIfActivated :: "'r Env \<Rightarrow> ResourceData \<Rightarrow> TriggerId \<Rightarrow> 'r \<Rightarrow> error option \<times> 'r \<times> call list" where
  "startIfActivated env d tid r =
     (if activated d
      then (let ((future, err), r1) = client_Start env tid r
            in case err of
                 Some cause \<Rightarrow> (Some (StartingError tid cause), r1, [CallStart tid err])
               | None \<Rightarrow>
                   (let (werr, r2) = WaitForCompletionRef env future r1
                    in ((case werr of None \<Rightarrow> None
                         | Some cause \<Rightarrow> Some (WaitingOnStartError tid cause)),
                        r2, [CallStart tid err, CallWaitForCompletion future werr])))
      else (None, r, []))"

definition resourceDataFactoryTriggerScheduleCreateUpdate :: "'r Env \<Rightarrow> ResourceData \<Rightarrow> 'r \<Rightarrow> 'r outcome" where
  "resourceDataFactoryTriggerScheduleCreateUpdate env d r =
     (case resolveDataFactoryId env d of
        Inl e \<Rightarrow> \<lparr>Err = Some e, Data = d, Remote = r, Calls = []\<rparr>
      | Inr None \<Rightarrow>
          \<lparr>Err = Some (NilDereference ''dataFactoryId''), Data = d, Remote = r, Calls = []\<rparr>
      | Inr (Some dataFactoryId) \<Rightarrow>
          (let tid = NewTriggerID (AccountSubscriptionId env) (df_ResourceGroup dataFactoryId)
                      (df_FactoryName dataFactoryId) (name d)
           in case checkExisting env d tid r of
                (Some e, r1, cs1) \<Rightarrow> \<lparr>Err = Some e, Data = d, Remote = r1, Calls = cs1\<rparr>
              | (None, r1, cs1) \<Rightarrow>
                  (let trigger = buildTrigger env d;
                       (cerr, r2) = client_CreateOrUpdate env tid trigger r1;
                       cs2 = cs1 @ [CallCreateOrUpdate tid trigger cerr]
                   in case cerr of
                        Some cause \<Rightarrow>
                          \<lparr>Err = Some (CreatingError tid cause), Data = d, Remote = r2,
                           Calls = cs2\<rparr>
                      | None \<Rightarrow>
                          (case startIfActivated env d tid r2 of
                             (Some e, r3, cs3) \<Rightarrow>
                               \<lparr>Err = Some e, Data = d, Remote = r3, Calls = cs2 @ cs3\<rparr>
                           | (None, r3, cs3) \<Rightarrow>
                               (let d1 = d\<lparr>ResourceId := TriggerId_ID env tid\<rparr>;
                                    res = resourceDataFactoryTriggerScheduleRead env d1 r3
                                in res\<lparr>Calls := cs2 @ cs3 @ Calls res\<rparr>)))))"

section \<open>An in-memory remote for running the controller\<close>

text \<open>
  The remote system is not part of the provider. This one is a store of trigger objects
  under their identifiers that behaves as the spec describes the remote object: an object
  is created by \<^verbatim>\<open>CreateOrUpdate\<close> in the stopped state, \<^verbatim>\<open>Start\<close> and
  \<^verbatim>\<open>Stop\<close> change its runtime state, \<^verbatim>\<open>Delete\<close> removes it. Identifiers are
  written \<^verbatim>\<open>subscription/group/factory\<close> and
  \<^verbatim>\<open>subscription/group/factory/trigger\<close>, an instant \<open>n\<close> is written as \<open>n\<close> letters,
  and a fault makes one kind of call fail. It serves to run the controller on concrete
  inputs.
\<close>

datatype fault = NoFault | StopFails | WaitFails

type_synonym SimRemote = "(TriggerId \<times> TriggerResource) list"

fun splitSlash :: "string \<Rightarrow> string list" where
  "splitSlash [] = [[]]"
| "splitSlash (c # cs) =
     (if c = CHR ''/'' then [] # splitSlash cs
      else (case splitSlash cs of [] \<Rightarrow> [[c]] | w # ws \<Rightarrow> (c # w) # ws))"

definition simDataFactoryID :: "string \<Rightarrow> string + DataFactoryId" where
  "simDataFactoryID s =
     (case splitSlash s of
        [sub, rg, f] \<Rightarrow> Inr (NewDataFactoryID sub rg f)
      | _ \<Rightarrow> Inl ''not a factory identifier'')"

definition simTriggerID :: "string \<Rightarrow> string + TriggerId" where
  "simTriggerID s =
     (case splitSlash s of
        [sub, rg, f, n] \<Rightarrow> Inr (NewTriggerID sub rg f n)
      | _ \<Rightarrow> Inl ''not a trigger identifier'')"

definition simTriggerPath :: "TriggerId \<Rightarrow> string" where
  "simTriggerPath t =
     SubscriptionId t @ ''/'' @ ResourceGroup t @ ''/'' @ FactoryName t @ ''/'' @ Name t"

definition simFactoryPath :: "DataFactoryId \<Rightarrow> string" where
  "simFactoryPath f = df_SubscriptionId f @ ''/'' @ df_ResourceGroup f @ ''/'' @ df_FactoryName f"

definition simSetRuntimeState :: "string \<Rightarrow> TriggerResource \<Rightarrow> TriggerResource" where
  "simSetRuntimeState s t =
     (case Properties t of
        Some (ScheduleTriggerKind st) \<Rightarrow>
          t\<lparr>Properties := Some (ScheduleTriggerKind (st\<lparr>RuntimeState := s\<rparr>))\<rparr>
      | _ \<Rightarrow> t)"

definition simGet :: "TriggerId \<Rightarrow> SimRemote \<Rightarrow> (TriggerResource \<times> string option) \<times> SimRemote" where
  "simGet tid r =
     (case map_of r tid of
        None \<Rightarrow>
          ((\<lparr>StatusCode = Some 404, Properties = None, ID = None, ResourceName = None,
             ResourceType = None\<rparr>, Some ''NotFound''), r)
      | Some t \<Rightarrow> ((t\<lparr>StatusCode := Some 200\<rparr>, None), r))"

definition simCreateOrUpdate :: "TriggerId \<Rightarrow> TriggerResource \<Rightarrow> SimRemote \<Rightarrow> string option \<times> SimRemote" where
  "simCreateOrUpdate tid t r =
     (None,
      (tid, simSetRuntimeState ''Stopped''
              (t\<lparr>ID := Some (simTriggerPath tid), ResourceName := Some (Name tid),
                 ResourceType := Some ''Microsoft.DataFactory/factories/triggers''\<rparr>)) # r)"

definition simStart :: "TriggerId \<Rightarrow> SimRemote \<Rightarrow> (Future \<times> string option) \<times> SimRemote" where
  "simStart tid r =
     (case map_of r tid of
        None \<Rightarrow> ((0, Some ''NotFound''), r)
      | Some t \<Rightarrow> ((1, None), (tid, simSetRuntimeState ''Started'' t) # r))"

definition simStop :: "fault \<Rightarrow> TriggerId \<Rightarrow> SimRemote \<Rightarrow> (Future \<times> string option) \<times> SimRemote" where
  "simStop flt tid r =
     (if flt = StopFails then ((0, Some ''stop refused''), r)
      else (case map_of r tid of
              None \<Rightarrow> ((0, Some ''NotFound''), r)
            | Some t \<Rightarrow> ((2, None), (tid, simSetRuntimeState ''Stopped'' t) # r)))"

definition simWait :: "fault \<Rightarrow> Future \<Rightarrow> SimRemote \<Rightarrow> string option \<times> SimRemote" where
  "simWait flt fu r = (if flt = WaitFails then (Some ''context deadline exceeded'', r) else (None, r))"

definition simDelete :: "TriggerId \<Rightarrow> SimRemote \<Rightarrow> string option \<times> SimRemote" where
  "simDelete tid r = (None, filter (\<lambda>kv. fst kv \<noteq> tid) r)"

definition simEnv :: "fault \<Rightarrow> SimRemote Env" where
  "simEnv flt =
     \<lparr>AccountSubscriptionId = ''sub'',
      client_Get = simGet,
      client_CreateOrUpdate = simCreateOrUpdate,
      client_Start = simStart,
      client_Stop = simStop flt,
      client_Delete = simDelete,
      WaitForCompletionRef = simWait flt,
      parse_DataFactoryID = simDataFactoryID,
      parse_TriggerID = simTriggerID,
      TriggerId_ID = simTriggerPath,
      DataFactoryId_ID = simFactoryPath,
      time_Parse = length,
      time_Format = (\<lambda>t. replicate t (CHR ''Z'')),
      time_Now = 0\<rparr>"

definition simData :: ResourceData where
  "simData =
     \<lparr>ResourceId = [], IsNewResource = True, name = ''t'', resource_group_name = ''rg'',
      data_factory_name = ''df'', data_factory_id = [], description = ''nightly'',
      schedule = [Some \<lparr>days_of_month = [], days_of_week = [''Monday'', ''Wednesday''],
                        hours = [], minutes = [], monthly = []\<rparr>],
      start_time = [], end_time = [], frequency = ''Week'', interval = 2, activated = True,
      pipeline_name = ''p1'', pipeline_parameters = [], annotations = []\<rparr>"


definition simTrigger :: TriggerId where
  "simTrigger = NewTriggerID ''sub'' ''rg'' ''df'' ''t''"

definition simStored :: ResourceData where
  "simStored = simData\<lparr>ResourceId := ''sub/rg/df/t'', IsNewResource := False,
                        end_time := ''ZZZZ''\<rparr>"

text \<open>A stopped schedule trigger whose recurrence has neither a schedule nor an end time.\<close>

definition simPlainTrigger :: ScheduleTrigger where
  "simPlainTrigger =
     \<lparr>TypeProperties =
        Some \<lparr>Recurrence =
                Some \<lparr>Frequency = ''Day'', Interval = Some 1, StartTime = Some 3,
                      EndTime = None, Schedule = None\<rparr>\<rparr>,
      Pipelines = Some [\<lparr>PipelineReference =
                           Some \<lparr>ReferenceName = Some ''p2'',
                                 ReferenceType = Some ''PipelineReference''\<rparr>,
                         Parameters = []\<rparr>],
      Description = Some ''daily'', RuntimeState = ''Stopped'', Annotations = None\<rparr>"

definition simObject :: "BasicTrigger \<Rightarrow> TriggerResource" where
  "simObject props =
     \<lparr>StatusCode = None, Properties = Some props, ID = Some ''sub/rg/df/t'',
      ResourceName = Some ''T'',
      ResourceType = Some ''Microsoft.DataFactory/factories/triggers''\<rparr>"

definition simRemotePlain :: SimRemote where
  "simRemotePlain = [(simTrigger, simObject (ScheduleTriggerKind simPlainTrigger))]"

definition simRemoteOther :: SimRemote where
  "simRemoteOther = [(simTrigger, simObject (OtherTriggerKind ''BlobEventsTrigger''))]"

section \<open>What the claims say, in the spec's words\<close>

text \<open>
  Following the spec's words: the input of the encoder "is nothing or has no populated
  field". A nil block and a block whose five sequences are all empty both have no
  populated field.
\<close>

definition noPopulatedField :: "ScheduleConfig option list \<Rightarrow> bool" where
  "noPopulatedField x =
     (case x of [] \<Rightarrow> True | None # _ \<Rightarrow> True | Some blk # _ \<Rightarrow> \<not> populated blk)"

section \<open>Properties of the integer conversions\<close>

lemma int32_roundtrip: "int32_of_int (int_of_int32 v) = v"
  unfolding int32_of_int_def int_of_int32_def
  by (rule bit_word_eqI) (auto simp add: bit_simps)

lemma sint_int32_of_int:
  assumes "fits_int32 v"
  shows "sint (int32_of_int v) = sint v"
proof -
  have "int32_of_int v = scast v"
    unfolding int32_of_int_def
    by (rule bit_word_eqI) (auto simp add: bit_simps dest: bit_imp_le_length)
  then have "sint (int32_of_int v) = signed_take_bit 31 (sint v)"
    by (simp add: signed_scast_eq)
  also have "\<dots> = sint v"
    using assms unfolding fits_int32_def by (simp add: signed_take_bit_int_eq_self)
  finally show ?thesis .
qed

section \<open>Properties of the schedule codec\<close>

lemma expand_Some:
  "expandDataFactorySchedule (Some blk # rest) =
     Some \<lparr>Minutes = (if minutes blk = [] then None else Some (map int32_of_int (minutes blk))),
           Hours = (if hours blk = [] then None else Some (map int32_of_int (hours blk))),
           WeekDays = (if days_of_week blk = [] then None else Some (days_of_week blk)),
           MonthDays =
             (if days_of_month blk = [] then None
              else Some (map int32_of_int (days_of_month blk))),
           MonthlyOccurrences =
             (if monthly blk = [] then None
              else Some (map expandMonthlyOccurrence (monthly blk)))\<rparr>"
  by (simp add: Let_def ExpandInt32Slice_def)

lemma flatten_Some:
  "flattenDataFactorySchedule (Some s) =
     [\<lparr>st_minutes = Minutes s, st_hours = Hours s, st_days_of_week = WeekDays s,
       st_days_of_month = MonthDays s,
       st_monthly = map_option (map flattenMonthlyOccurrence) (MonthlyOccurrences s)\<rparr>]"
  by (simp add: FlattenInt32Slice_def split: option.splits)

declare expandDataFactorySchedule.simps(3) [simp del]
declare flattenDataFactorySchedule.simps(2) [simp del]

lemma readMonthly_roundtrip:
  "schemaReadMonthly (flattenMonthlyOccurrence (expandMonthlyOccurrence m)) =
     \<lparr>weekday = weekday m, week = int_of_int32 (int32_of_int (week m))\<rparr>"
  by (simp add: schemaReadMonthly_def flattenMonthlyOccurrence_def expandMonthlyOccurrence_def)

lemma codecPass_Some:
  assumes "populated blk"
  shows "codecPass (Some blk # rest) =
    [Some \<lparr>days_of_month = map (\<lambda>v. int_of_int32 (int32_of_int v)) (days_of_month blk),
           days_of_week = days_of_week blk,
           hours = map (\<lambda>v. int_of_int32 (int32_of_int v)) (hours blk),
           minutes = map (\<lambda>v. int_of_int32 (int32_of_int v)) (minutes blk),
           monthly =
             map (\<lambda>m. \<lparr>weekday = weekday m, week = int_of_int32 (int32_of_int (week m))\<rparr>)
               (monthly blk)\<rparr>]"
  using assms
  by (simp add: codecPass_def schemaReadSchedule_def schemaReadBlock_def populated_def
      expand_Some flatten_Some schemaReadInts_def o_def readMonthly_roundtrip)

text \<open>
  Claim C1. For a schedule block with at least one populated field, a second
  encode/decode pass changes nothing that the first pass produced, and a field that is
  empty in the block is omitted by the decoder and reads back empty after the pass.
\<close>

theorem schedule_codec_idempotent:
  assumes "x = Some blk # rest" and "populated blk"
  shows "codecPass (codecPass x) = codecPass x
    \<and> (\<exists>s blk'. flattenDataFactorySchedule (expandDataFactorySchedule x) = [s]
          \<and> codecPass x = [Some blk']
          \<and> (days_of_month blk = [] \<longrightarrow> st_days_of_month s = None \<and> days_of_month blk' = [])
          \<and> (days_of_week blk = [] \<longrightarrow> st_days_of_week s = None \<and> days_of_week blk' = [])
          \<and> (hours blk = [] \<longrightarrow> st_hours s = None \<and> hours blk' = [])
          \<and> (minutes blk = [] \<longrightarrow> st_minutes s = None \<and> minutes blk' = [])
          \<and> (monthly blk = [] \<longrightarrow> st_monthly s = None \<and> monthly blk' = []))"
proof -
  let ?b = "\<lparr>days_of_month = map (\<lambda>v. int_of_int32 (int32_of_int v)) (days_of_month blk),
             days_of_week = days_of_week blk,
             hours = map (\<lambda>v. int_of_int32 (int32_of_int v)) (hours blk),
             minutes = map (\<lambda>v. int_of_int32 (int32_of_int v)) (minutes blk),
             monthly =
               map (\<lambda>m. \<lparr>weekday = weekday m, week = int_of_int32 (int32_of_int (week m))\<rparr>)
                 (monthly blk)\<rparr>"
  have pass: "codecPass x = [Some ?b]"
    using assms codecPass_Some by simp
  have "populated ?b"
    using assms(2) by (simp add: populated_def)
  then have "codecPass [Some ?b] = [Some ?b]"
    by (simp add: codecPass_Some o_def int32_roundtrip)
  with pass have idem: "codecPass (codecPass x) = codecPass x"
    by simp
  have absent: "\<exists>s blk'. flattenDataFactorySchedule (expandDataFactorySchedule x) = [s]
          \<and> codecPass x = [Some blk']
          \<and> (days_of_month blk = [] \<longrightarrow> st_days_of_month s = None \<and> days_of_month blk' = [])
          \<and> (days_of_week blk = [] \<longrightarrow> st_days_of_week s = None \<and> days_of_week blk' = [])
          \<and> (hours blk = [] \<longrightarrow> st_hours s = None \<and> hours blk' = [])
          \<and> (minutes blk = [] \<longrightarrow> st_minutes s = None \<and> minutes blk' = [])
          \<and> (monthly blk = [] \<longrightarrow> st_monthly s = None \<and> monthly blk' = [])"
    unfolding pass using assms(1) by (simp add: expand_Some flatten_Some)
  from idem absent show ?thesis ..
qed

theorem schedule_codec_idempotent_witness:
  "populated \<lparr>days_of_month = [], days_of_week = [''Monday'', ''Wednesday''], hours = [9],
              minutes = [], monthly = [\<lparr>weekday = ''Friday'', week = - 1\<rparr>]\<rparr>
   \<and> codecPass (codecPass [Some \<lparr>days_of_month = [], days_of_week = [''Monday'', ''Wednesday''],
        hours = [9], minutes = [], monthly = [\<lparr>weekday = ''Friday'', week = - 1\<rparr>]\<rparr>])
     = codecPass [Some \<lparr>days_of_month = [], days_of_week = [''Monday'', ''Wednesday''],
        hours = [9], minutes = [], monthly = [\<lparr>weekday = ''Friday'', week = - 1\<rparr>]\<rparr>]"
proof -
  have p: "populated \<lparr>days_of_month = [], days_of_week = [''Monday'', ''Wednesday''],
      hours = [9], minutes = [], monthly = [\<lparr>weekday = ''Friday'', week = - 1\<rparr>]\<rparr>"
    by (simp add: populated_def)
  show ?thesis
    using p schedule_codec_idempotent [OF refl p, of "[]"] by simp
qed

text \<open>
  Claim C2, as stated, fails: a present block whose five sequences are all empty has no
  populated field, and the encoder still returns a structure for it.
\<close>

theorem expand_empty_block_counterexample:
  "noPopulatedField [Some \<lparr>days_of_month = [], days_of_week = [], hours = [], minutes = [],
                           monthly = []\<rparr>]
   \<and> expandDataFactorySchedule [Some \<lparr>days_of_month = [], days_of_week = [], hours = [],
                                      minutes = [], monthly = []\<rparr>]
     = Some \<lparr>Minutes = None, Hours = None, WeekDays = None, MonthDays = None,
             MonthlyOccurrences = None\<rparr>"
  by (simp add: noPopulatedField_def populated_def expand_Some)

text \<open>
  Claim C2, amended. The encoder returns nothing exactly when the input list is empty or
  its first block is nil (so only for inputs without a populated field). For every other
  input it returns a structure in which each of the five sub-fields is present exactly
  when the input sequence is non-empty, holding the input values in their order, each
  converted to 32 bits; a value that fits in 32 bits is unchanged by the conversion.
\<close>

theorem expand_fields_present_iff_nonempty:
  "(expandDataFactorySchedule x = None \<longleftrightarrow> (x = [] \<or> (\<exists>rest. x = None # rest)))
   \<and> (expandDataFactorySchedule x = None \<longrightarrow> noPopulatedField x)
   \<and> (\<forall>blk rest. x = Some blk # rest \<longrightarrow>
        (\<exists>s. expandDataFactorySchedule x = Some s
           \<and> MonthDays s = (if days_of_month blk = [] then None
                             else Some (map int32_of_int (days_of_month blk)))
           \<and> WeekDays s = (if days_of_week blk = [] then None else Some (days_of_week blk))
           \<and> Hours s = (if hours blk = [] then None else Some (map int32_of_int (hours blk)))
           \<and> Minutes s = (if minutes blk = [] then None
                           else Some (map int32_of_int (minutes blk)))
           \<and> MonthlyOccurrences s =
               (if monthly blk = [] then None
                else Some (map (\<lambda>m. \<lparr>Day = weekday m,
                                       Occurrence = Some (int32_of_int (week m))\<rparr>)
                             (monthly blk)))))
   \<and> (\<forall>v. fits_int32 v \<longrightarrow> sint (int32_of_int v) = sint v)"
proof -
  have a: "expandDataFactorySchedule x = None \<longleftrightarrow> (x = [] \<or> (\<exists>rest. x = None # rest))"
    by (cases x rule: expandDataFactorySchedule.cases) (simp_all add: expand_Some)
  have b: "expandDataFactorySchedule x = None \<longrightarrow> noPopulatedField x"
    by (cases x rule: expandDataFactorySchedule.cases)
       (simp_all add: expand_Some noPopulatedField_def)
  have c: "\<forall>blk rest. x = Some blk # rest \<longrightarrow>
        (\<exists>s. expandDataFactorySchedule x = Some s
           \<and> MonthDays s = (if days_of_month blk = [] then None
                             else Some (map int32_of_int (days_of_month blk)))
           \<and> WeekDays s = (if days_of_week blk = [] then None else Some (days_of_week blk))
           \<and> Hours s = (if hours blk = [] then None else Some (map int32_of_int (hours blk)))
           \<and> Minutes s = (if minutes blk = [] then None
                           else Some (map int32_of_int (minutes blk)))
           \<and> MonthlyOccurrences s =
               (if monthly blk = [] then None
                else Some (map (\<lambda>m. \<lparr>Day = weekday m,
                                       Occurrence = Some (int32_of_int (week m))\<rparr>)
                             (monthly blk))))"
    by (simp add: expand_Some expandMonthlyOccurrence_def [abs_def])
  have d: "\<forall>v. fits_int32 v \<longrightarrow> sint (int32_of_int v) = sint v"
    by (simp add: sint_int32_of_int)
  from a b c d show ?thesis by blast
qed

theorem expand_fields_present_iff_nonempty_witness:
  "(\<exists>s. expandDataFactorySchedule
          [Some \<lparr>days_of_month = [], days_of_week = [''Monday''], hours = [9, 24],
                 minutes = [], monthly = [\<lparr>weekday = ''Friday'', week = 2\<rparr>]\<rparr>] = Some s
        \<and> MonthDays s = None \<and> WeekDays s = Some [''Monday''] \<and> Hours s = Some [9, 24]
        \<and> Minutes s = None
        \<and> MonthlyOccurrences s = Some [\<lparr>Day = ''Friday'', Occurrence = Some 2\<rparr>])
   \<and> fits_int32 24 \<and> sint (int32_of_int 24) = 24"
proof -
  have f: "fits_int32 24"
    by (simp add: fits_int32_def)
  show ?thesis
    using f expand_fields_present_iff_nonempty
      [of "[Some \<lparr>days_of_month = [], days_of_week = [''Monday''], hours = [9, 24],
                  minutes = [], monthly = [\<lparr>weekday = ''Friday'', week = 2\<rparr>]\<rparr>]"]
    by (simp add: int32_of_int_def)
qed

text \<open>
  Claim C3, as stated, fails: for a nil remote schedule the decoder returns the empty
  list, which holds no block at all, not a singleton with an empty block.
\<close>

theorem flatten_nil_counterexample:
  "flattenDataFactorySchedule None = []
   \<and> flattenDataFactorySchedule None
      \<noteq> [\<lparr>st_minutes = None, st_hours = None, st_days_of_week = None,
           st_days_of_month = None, st_monthly = None\<rparr>]"
  by simp

text \<open>
  Claim C3, amended. For a nil remote schedule the decoder returns the empty list. For
  every other remote schedule it returns exactly one block, in which each populated
  remote field is copied back and each absent remote field is omitted; a remote schedule
  without any field gives one block without any key.
\<close>

theorem flatten_copies_populated_fields:
  "flattenDataFactorySchedule None = []
   \<and> (\<exists>blk. flattenDataFactorySchedule (Some s) = [blk]
         \<and> st_minutes blk = Minutes s
         \<and> st_hours blk = Hours s
         \<and> st_days_of_week blk = WeekDays s
         \<and> st_days_of_month blk = MonthDays s
         \<and> st_monthly blk =
             map_option (map (\<lambda>v. \<lparr>st_weekday = Day v, st_week = Occurrence v\<rparr>))
               (MonthlyOccurrences s))"
  by (simp add: flatten_Some flattenMonthlyOccurrence_def [abs_def])

section \<open>Properties of the controller\<close>

subsection \<open>Which errors each step can return\<close>

lemma resolve_both_empty:
  "data_factory_name d = [] \<Longrightarrow> data_factory_id d = [] \<Longrightarrow> resolveDataFactoryId env d = Inr None"
  by (simp add: resolveDataFactoryId_def)

lemma resolve_not_nil:
  "data_factory_name d \<noteq> [] \<or> data_factory_id d \<noteq> [] \<Longrightarrow> resolveDataFactoryId env d \<noteq> Inr None"
  by (auto simp: resolveDataFactoryId_def split: sum.splits)

lemma resolve_error: "resolveDataFactoryId env d = Inl e \<Longrightarrow> \<exists>m. e = ParseError m"
  by (auto simp: resolveDataFactoryId_def split: sum.splits if_splits)

lemma setScheduleTrigger_error:
  "setScheduleTrigger env st d = (Some e, d') \<Longrightarrow>
     e = NilDereference ''scheduleTriggerProps.ScheduleTriggerTypeProperties''"
  by (auto simp: setScheduleTrigger_def Let_def split: option.splits)

lemma Read_error:
  "Err (resourceDataFactoryTriggerScheduleRead env d r) = Some e \<Longrightarrow>
     e \<noteq> NilDereference ''dataFactoryId''"
  by (auto simp: resourceDataFactoryTriggerScheduleRead_def Let_def
      split: sum.splits prod.splits option.splits if_splits
      dest!: setScheduleTrigger_error)

lemma checkExisting_error:
  "checkExisting env d tid r = (Some e, r1, cs) \<Longrightarrow> e \<noteq> NilDereference ''dataFactoryId''"
  by (auto simp: checkExisting_def Let_def split: prod.splits option.splits if_splits)

lemma startIfActivated_error:
  "startIfActivated env d tid r = (Some e, r1, cs) \<Longrightarrow> e \<noteq> NilDereference ''dataFactoryId''"
  by (auto simp: startIfActivated_def Let_def split: prod.splits option.splits if_splits)

subsection \<open>What the read path writes\<close>

lemma setRecurrence_frame:
  "activated (setRecurrence env rc d) = activated d"
  "ResourceId (setRecurrence env rc d) = ResourceId d"
  "name (setRecurrence env rc d) = name d"
  "resource_group_name (setRecurrence env rc d) = resource_group_name d"
  "data_factory_name (setRecurrence env rc d) = data_factory_name d"
  "data_factory_id (setRecurrence env rc d) = data_factory_id d"
  "pipeline_name (setRecurrence env rc d) = pipeline_name d"
  "pipeline_parameters (setRecurrence env rc d) = pipeline_parameters d"
  by (simp_all add: setRecurrence_def Let_def split: option.splits)

lemma setPipelines_frame:
  "activated (setPipelines ps d) = activated d"
  "ResourceId (setPipelines ps d) = ResourceId d"
  "name (setPipelines ps d) = name d"
  "resource_group_name (setPipelines ps d) = resource_group_name d"
  "data_factory_name (setPipelines ps d) = data_factory_name d"
  "data_factory_id (setPipelines ps d) = data_factory_id d"
  "schedule (setPipelines ps d) = schedule d"
  "start_time (setPipelines ps d) = start_time d"
  "end_time (setPipelines ps d) = end_time d"
  "frequency (setPipelines ps d) = frequency d"
  "interval (setPipelines ps d) = interval d"
  by (simp_all add: setPipelines_def Let_def split: option.splits list.splits)

lemma setScheduleTrigger_activated:
  "activated (snd (setScheduleTrigger env st d)) = (RuntimeState st = TriggerRuntimeStateStarted)"
  by (simp add: setScheduleTrigger_def Let_def setRecurrence_frame setPipelines_frame
      split: option.splits)

lemma Read_found_schedule:
  assumes "parse_TriggerID env (ResourceId d) = Inr tid"
    and "client_Get env tid r = ((resp, None), r1)"
    and "Properties resp = Some (ScheduleTriggerKind st)"
  shows "resourceDataFactoryTriggerScheduleRead env d r =
    \<lparr>Err = fst (setScheduleTrigger env st
             (d\<lparr>name := stringValue (ResourceName resp),
                resource_group_name := ResourceGroup tid,
                data_factory_name := FactoryName tid,
                data_factory_id := DataFactoryId_ID env
                  (NewDataFactoryID (SubscriptionId tid) (ResourceGroup tid) (FactoryName tid))\<rparr>)),
     Data = snd (setScheduleTrigger env st
             (d\<lparr>name := stringValue (ResourceName resp),
                resource_group_name := ResourceGroup tid,
                data_factory_name := FactoryName tid,
                data_factory_id := DataFactoryId_ID env
                  (NewDataFactoryID (SubscriptionId tid) (ResourceGroup tid) (FactoryName tid))\<rparr>)),
     Remote = r1, Calls = [CallGet tid resp None]\<rparr>"
  using assms
  by (simp add: resourceDataFactoryTriggerScheduleRead_def Let_def case_prod_beta)

lemma Read_calls_inv:
  assumes "Calls (resourceDataFactoryTriggerScheduleRead env d r) = [CallGet tid resp e]"
  shows "parse_TriggerID env (ResourceId d) = Inr tid \<and> fst (client_Get env tid r) = (resp, e)"
  using assms
  by (auto simp: resourceDataFactoryTriggerScheduleRead_def Let_def
      split: sum.splits prod.splits option.splits if_splits)

lemma Read_success_calls:
  assumes "Err (resourceDataFactoryTriggerScheduleRead env d r) = None"
  shows "\<exists>tid resp e. Calls (resourceDataFactoryTriggerScheduleRead env d r) = [CallGet tid resp e]"
  using assms
  by (auto simp: resourceDataFactoryTriggerScheduleRead_def Let_def
      split: sum.splits prod.splits option.splits if_splits)

lemma Read_activated:
  assumes "Calls (resourceDataFactoryTriggerScheduleRead env d r) = [CallGet tid resp None]"
    and "Properties resp = Some (ScheduleTriggerKind st)"
  shows "activated (Data (resourceDataFactoryTriggerScheduleRead env d r))
           = (RuntimeState st = TriggerRuntimeStateStarted)"
proof -
  from Read_calls_inv [OF assms(1)]
  have p: "parse_TriggerID env (ResourceId d) = Inr tid"
    and g: "client_Get env tid r = ((resp, None), snd (client_Get env tid r))"
    by (simp_all add: prod_eq_iff)
  show ?thesis
    by (simp add: Read_found_schedule [OF p g assms(2)] setScheduleTrigger_activated)
qed

lemma checkExisting_calls:
  "checkExisting env d tid r = (e, r1, cs) \<Longrightarrow> cs = [] \<or> (\<exists>resp err. cs = [CallGet tid resp err])"
  by (auto simp: checkExisting_def Let_def split: prod.splits option.splits if_splits)

lemma startIfActivated_off:
  "\<not> activated d \<Longrightarrow> startIfActivated env d tid r = (None, r, [])"
  by (simp add: startIfActivated_def)

lemma startIfActivated_on:
  "activated d \<Longrightarrow> startIfActivated env d tid r = (None, r1, cs) \<Longrightarrow>
     \<exists>fu. cs = [CallStart tid None, CallWaitForCompletion fu None]"
  by (auto simp: startIfActivated_def Let_def split: prod.splits option.splits if_splits)

lemma CreateUpdate_success_resolve:
  assumes "Err (resourceDataFactoryTriggerScheduleCreateUpdate env d r) = None"
  shows "\<exists>f. resolveDataFactoryId env d = Inr (Some f)"
  using assms
  by (cases "resolveDataFactoryId env d")
     (auto simp: resourceDataFactoryTriggerScheduleCreateUpdate_def split: option.splits)

lemma CreateUpdate_success_steps:
  assumes "Err (resourceDataFactoryTriggerScheduleCreateUpdate env d r) = None"
    and rs: "resolveDataFactoryId env d = Inr (Some f)"
    and "tid = NewTriggerID (AccountSubscriptionId env) (df_ResourceGroup f)
                 (df_FactoryName f) (name d)"
    and "c = checkExisting env d tid r"
    and "cu = client_CreateOrUpdate env tid (buildTrigger env d) (fst (snd c))"
    and "s = startIfActivated env d tid (snd cu)"
    and "rd = resourceDataFactoryTriggerScheduleRead env
                (d\<lparr>ResourceId := TriggerId_ID env tid\<rparr>) (fst (snd s))"
  shows "fst c = None \<and> fst cu = None \<and> fst s = None \<and> Err rd = None
         \<and> Data (resourceDataFactoryTriggerScheduleCreateUpdate env d r) = Data rd
         \<and> Calls (resourceDataFactoryTriggerScheduleCreateUpdate env d r)
             = snd (snd c) @ [CallCreateOrUpdate tid (buildTrigger env d) None]
               @ snd (snd s) @ Calls rd"
  using assms(1) unfolding resourceDataFactoryTriggerScheduleCreateUpdate_def rs assms(3-7)
  by (simp add: Let_def case_prod_beta split: option.splits prod.splits)

lemma setScheduleTrigger_fst_error:
  "fst (setScheduleTrigger env st d) = Some e \<Longrightarrow>
     e = NilDereference ''scheduleTriggerProps.ScheduleTriggerTypeProperties''"
  by (cases "setScheduleTrigger env st d") (auto dest: setScheduleTrigger_error)

subsection \<open>Deletion\<close>

text \<open>
  Claim C4. Whatever the remote state is, also when the object is already stopped, a
  deletion whose identifier parses issues \<^verbatim>\<open>Stop\<close> first. \<^verbatim>\<open>Delete\<close> is called
  only after \<^verbatim>\<open>Stop\<close> and the wait for its completion have both returned without
  error. When \<^verbatim>\<open>Stop\<close> fails, or its wait fails or runs out of time, the error is
  returned and nothing is called after the failing call.
\<close>

theorem delete_stops_first:
  assumes "res = resourceDataFactoryTriggerScheduleDelete env d r"
  shows "(\<forall>tid e. CallDelete tid e \<in> set (Calls res) \<longrightarrow>
            (\<exists>fu. Calls res = [CallStop tid None, CallWaitForCompletion fu None, CallDelete tid e]))
    \<and> (\<forall>tid. parse_TriggerID env (ResourceId d) = Inr tid \<longrightarrow>
          (\<exists>e rest. Calls res = CallStop tid e # rest)
        \<and> (\<forall>fu cause. fst (client_Stop env tid r) = (fu, Some cause) \<longrightarrow>
              Err res = Some (StoppingError tid cause) \<and> Calls res = [CallStop tid (Some cause)]
              \<and> Data res = d)
        \<and> (\<forall>fu cause. fst (client_Stop env tid r) = (fu, None)
              \<and> fst (WaitForCompletionRef env fu (snd (client_Stop env tid r))) = Some cause \<longrightarrow>
              Err res = Some (WaitingToStopError tid cause)
              \<and> Calls res = [CallStop tid None, CallWaitForCompletion fu (Some cause)]
              \<and> Data res = d))"
  unfolding assms resourceDataFactoryTriggerScheduleDelete_def
  by (auto simp: Let_def split: sum.splits prod.splits option.splits)

theorem delete_stops_first_witness:
  "parse_TriggerID (simEnv WaitFails) (ResourceId simStored) = Inr simTrigger
   \<and> Err (resourceDataFactoryTriggerScheduleDelete (simEnv WaitFails) simStored simRemotePlain)
       = Some (WaitingToStopError simTrigger ''context deadline exceeded'')
   \<and> Calls (resourceDataFactoryTriggerScheduleDelete (simEnv WaitFails) simStored simRemotePlain)
       = [CallStop simTrigger None,
          CallWaitForCompletion 2 (Some ''context deadline exceeded'')]
   \<and> Calls (resourceDataFactoryTriggerScheduleDelete (simEnv NoFault) simStored simRemotePlain)
       = [CallStop simTrigger None, CallWaitForCompletion 2 None, CallDelete simTrigger None]"
proof -
  have p: "parse_TriggerID (simEnv WaitFails) (ResourceId simStored) = Inr simTrigger"
    by code_simp
  have s: "fst (client_Stop (simEnv WaitFails) simTrigger simRemotePlain) = (2, None)
      \<and> fst (WaitForCompletionRef (simEnv WaitFails) 2
              (snd (client_Stop (simEnv WaitFails) simTrigger simRemotePlain)))
          = Some ''context deadline exceeded''"
    by code_simp
  have d: "CallDelete simTrigger None
      \<in> set (Calls (resourceDataFactoryTriggerScheduleDelete (simEnv NoFault) simStored
                      simRemotePlain))"
    by code_simp
  note t1 = delete_stops_first [OF refl, of "simEnv WaitFails" simStored simRemotePlain]
  note t2 = delete_stops_first [OF refl, of "simEnv NoFault" simStored simRemotePlain]
  from t1 p s have w: "Err (resourceDataFactoryTriggerScheduleDelete (simEnv WaitFails) simStored simRemotePlain)
       = Some (WaitingToStopError simTrigger ''context deadline exceeded'')
   \<and> Calls (resourceDataFactoryTriggerScheduleDelete (simEnv WaitFails) simStored simRemotePlain)
       = [CallStop simTrigger None,
          CallWaitForCompletion 2 (Some ''context deadline exceeded'')]"
    by blast
  from t2 d obtain fu where c: "Calls (resourceDataFactoryTriggerScheduleDelete (simEnv NoFault) simStored simRemotePlain)
       = [CallStop simTrigger None, CallWaitForCompletion fu None, CallDelete simTrigger None]"
    by blast
  have "Calls (resourceDataFactoryTriggerScheduleDelete (simEnv NoFault) simStored simRemotePlain)
       = [CallStop simTrigger None, CallWaitForCompletion 2 None, CallDelete simTrigger None]"
    by code_simp
  with p w show ?thesis by simp
qed

subsection \<open>Creation and update\<close>

text \<open>
  Claim C5. When a new resource is requested and \<^verbatim>\<open>Get\<close> returns, without error, an
  object with a non-empty identifier, the cycle stops with the import-as-exists error
  naming that identifier; the \<^verbatim>\<open>Get\<close> is the only call made, so
  \<^verbatim>\<open>CreateOrUpdate\<close> is never issued, and the resource data are untouched.
\<close>

theorem create_refuses_existing:
  assumes "IsNewResource d"
    and "resolveDataFactoryId env d = Inr (Some f)"
    and "tid = NewTriggerID (AccountSubscriptionId env) (df_ResourceGroup f)
                 (df_FactoryName f) (name d)"
    and "client_Get env tid r = ((existing, None), r1)"
    and "ID existing = Some existingId"
    and "existingId \<noteq> []"
  shows "resourceDataFactoryTriggerScheduleCreateUpdate env d r =
           \<lparr>Err = Some (ImportAsExistsError ''azurerm_data_factory_trigger_schedule'' existingId),
            Data = d, Remote = r1, Calls = [CallGet tid existing None]\<rparr>
         \<and> (\<forall>t p e. CallCreateOrUpdate t p e
               \<notin> set (Calls (resourceDataFactoryTriggerScheduleCreateUpdate env d r)))"
proof -
  have "checkExisting env d tid r =
      (Some (ImportAsExistsError ''azurerm_data_factory_trigger_schedule'' existingId), r1,
       [CallGet tid existing None])"
    using assms(1,4,5,6) by (simp add: checkExisting_def)
  then have "resourceDataFactoryTriggerScheduleCreateUpdate env d r =
           \<lparr>Err = Some (ImportAsExistsError ''azurerm_data_factory_trigger_schedule'' existingId),
            Data = d, Remote = r1, Calls = [CallGet tid existing None]\<rparr>"
    using assms(2,3) by (simp add: resourceDataFactoryTriggerScheduleCreateUpdate_def)
  then show ?thesis by simp
qed

theorem create_refuses_existing_witness:
  "IsNewResource simData
   \<and> client_Get (simEnv NoFault) simTrigger simRemotePlain
       = ((simObject (ScheduleTriggerKind simPlainTrigger)\<lparr>StatusCode := Some 200\<rparr>, None),
          simRemotePlain)
   \<and> resourceDataFactoryTriggerScheduleCreateUpdate (simEnv NoFault) simData simRemotePlain
       = \<lparr>Err = Some (ImportAsExistsError ''azurerm_data_factory_trigger_schedule''
                       ''sub/rg/df/t''),
          Data = simData, Remote = simRemotePlain,
          Calls = [CallGet simTrigger
                     (simObject (ScheduleTriggerKind simPlainTrigger)\<lparr>StatusCode := Some 200\<rparr>)
                     None]\<rparr>"
proof -
  have h1: "IsNewResource simData" by code_simp
  have h2: "resolveDataFactoryId (simEnv NoFault) simData
              = Inr (Some (NewDataFactoryID ''sub'' ''rg'' ''df''))" by code_simp
  have h3: "simTrigger = NewTriggerID (AccountSubscriptionId (simEnv NoFault))
              (df_ResourceGroup (NewDataFactoryID ''sub'' ''rg'' ''df''))
              (df_FactoryName (NewDataFactoryID ''sub'' ''rg'' ''df'')) (name simData)"
    by code_simp
  have h4: "client_Get (simEnv NoFault) simTrigger simRemotePlain
       = ((simObject (ScheduleTriggerKind simPlainTrigger)\<lparr>StatusCode := Some 200\<rparr>, None),
          simRemotePlain)" by code_simp
  have h5: "ID (simObject (ScheduleTriggerKind simPlainTrigger)\<lparr>StatusCode := Some 200\<rparr>)
              = Some ''sub/rg/df/t''" by code_simp
  have h6: "''sub/rg/df/t'' \<noteq> []" by simp
  from create_refuses_existing [OF h1 h2 h3 h4 h5 h6] h1 h4 show ?thesis by simp
qed

subsection \<open>Creation on the in-memory remote\<close>

lemma sim_checkExisting:
  "fst (checkExisting (simEnv flt) d tid []) = None
   \<and> fst (snd (checkExisting (simEnv flt) d tid [])) = []"
  by (simp add: checkExisting_def simEnv_def simGet_def ResponseWasNotFound_def)

lemma sim_stored_state:
  assumes "r2 = snd (client_CreateOrUpdate (simEnv flt) tid (buildTrigger (simEnv flt) d) [])"
    and "fst (startIfActivated (simEnv flt) d tid r2) = None"
    and "r3 = fst (snd (startIfActivated (simEnv flt) d tid r2))"
  shows "\<exists>obj st tp. map_of r3 tid = Some obj
      \<and> Properties obj = Some (ScheduleTriggerKind st) \<and> TypeProperties st = Some tp
      \<and> (RuntimeState st = ''Started'') = activated d
      \<and> (\<forall>t. t \<noteq> tid \<longrightarrow> map_of r3 t = None)"
  unfolding assms(1,3)
  by (simp add: startIfActivated_def simEnv_def simCreateOrUpdate_def simStart_def simWait_def
      simSetRuntimeState_def buildTrigger_def Let_def)

lemma sim_read_back:
  assumes "map_of r3 tid = Some obj"
    and "Properties obj = Some (ScheduleTriggerKind st)"
    and "TypeProperties st = Some tp"
    and "\<forall>t. t \<noteq> tid \<longrightarrow> map_of r3 t = None"
    and "Err (resourceDataFactoryTriggerScheduleRead (simEnv flt) d1 r3) = None"
  shows "activated (Data (resourceDataFactoryTriggerScheduleRead (simEnv flt) d1 r3))
           = (if parse_TriggerID (simEnv flt) (ResourceId d1) = Inr tid
              then RuntimeState st = ''Started'' else activated d1)"
proof (cases "parse_TriggerID (simEnv flt) (ResourceId d1)")
  case (Inl e)
  with assms(5) show ?thesis
    by (simp add: resourceDataFactoryTriggerScheduleRead_def)
next
  case (Inr t)
  show ?thesis
  proof (cases "t = tid")
    case True
    with Inr have p: "parse_TriggerID (simEnv flt) (ResourceId d1) = Inr tid" by simp
    have g: "client_Get (simEnv flt) tid r3 = ((obj\<lparr>StatusCode := Some 200\<rparr>, None), r3)"
      using assms(1) by (simp add: simEnv_def simGet_def)
    have k: "Properties (obj\<lparr>StatusCode := Some 200\<rparr>) = Some (ScheduleTriggerKind st)"
      using assms(2) by simp
    show ?thesis
      by (simp add: Read_found_schedule [OF p g k] setScheduleTrigger_activated p
          TriggerRuntimeStateStarted_def)
  next
    case False
    with assms(4) have n: "map_of r3 t = None" by simp
    from False Inr have q: "parse_TriggerID (simEnv flt) (ResourceId d1) \<noteq> Inr tid" by simp
    have "resourceDataFactoryTriggerScheduleRead (simEnv flt) d1 r3
        = \<lparr>Err = None, Data = d1\<lparr>ResourceId := []\<rparr>, Remote = r3,
           Calls = [CallGet t \<lparr>StatusCode = Some 404, Properties = None, ID = None,
                      ResourceName = None, ResourceType = None\<rparr> (Some ''NotFound'')]\<rparr>"
      using Inr n
      by (simp add: resourceDataFactoryTriggerScheduleRead_def simEnv_def simGet_def
          ResponseWasNotFound_def)
    with q show ?thesis by simp
  qed
qed

lemma sim_create_reads_back:
  assumes "Err (resourceDataFactoryTriggerScheduleCreateUpdate (simEnv flt) d []) = None"
  shows "activated (Data (resourceDataFactoryTriggerScheduleCreateUpdate (simEnv flt) d []))
           = activated d"
proof -
  from CreateUpdate_success_resolve [OF assms]
  obtain f where rs: "resolveDataFactoryId (simEnv flt) d = Inr (Some f)" by blast
  define tid where "tid = NewTriggerID (AccountSubscriptionId (simEnv flt)) (df_ResourceGroup f)
                    (df_FactoryName f) (name d)"
  define r2 where "r2 = snd (client_CreateOrUpdate (simEnv flt) tid (buildTrigger (simEnv flt) d) [])"
  define r3 where "r3 = fst (snd (startIfActivated (simEnv flt) d tid r2))"
  define d1 where "d1 = d\<lparr>ResourceId := TriggerId_ID (simEnv flt) tid\<rparr>"
  from CreateUpdate_success_steps [OF assms rs refl refl refl refl refl] have
    st: "fst (startIfActivated (simEnv flt) d tid r2) = None" and
    ok: "Err (resourceDataFactoryTriggerScheduleRead (simEnv flt) d1 r3) = None" and
    data: "Data (resourceDataFactoryTriggerScheduleCreateUpdate (simEnv flt) d [])
             = Data (resourceDataFactoryTriggerScheduleRead (simEnv flt) d1 r3)"
    unfolding tid_def r2_def r3_def d1_def
    by (simp_all add: sim_checkExisting)
  from sim_stored_state [OF r2_def st r3_def]
  obtain obj s tp where
    m: "map_of r3 tid = Some obj" and
    k: "Properties obj = Some (ScheduleTriggerKind s)" and
    t: "TypeProperties s = Some tp" and
    a: "(RuntimeState s = ''Started'') = activated d" and
    o: "\<forall>t. t \<noteq> tid \<longrightarrow> map_of r3 t = None"
    by blast
  have "activated d1 = activated d" by (simp add: d1_def)
  with sim_read_back [OF m k t o ok] a data show ?thesis by simp
qed

text \<open>
  Claim C6. In every cycle that ends without error: if \<^verbatim>\<open>activated\<close> is false no
  \<^verbatim>\<open>Start\<close> is called, and the read follows \<^verbatim>\<open>CreateOrUpdate\<close> directly; if it is
  true, \<^verbatim>\<open>Start\<close> follows the successful \<^verbatim>\<open>CreateOrUpdate\<close>, its wait
  completes without error, and only then the read is made. The read reports
  \<^verbatim>\<open>activated\<close> as "the runtime state of the object it fetched is Started". On the
  in-memory remote, where a stored object is stopped until it is started, every successful
  creation on an empty store reads back the value of \<^verbatim>\<open>activated\<close> that was asked
  for.
\<close>

theorem create_activation:
  assumes "res = resourceDataFactoryTriggerScheduleCreateUpdate env d r"
    and "Err res = None"
  shows "(\<not> activated d \<longrightarrow>
            (\<forall>t e. CallStart t e \<notin> set (Calls res))
          \<and> (\<exists>pre tid payload tid' resp e.
                Calls res = pre @ [CallCreateOrUpdate tid payload None, CallGet tid' resp e]))
    \<and> (activated d \<longrightarrow>
          (\<exists>pre tid payload fu tid' resp e.
             Calls res = pre @ [CallCreateOrUpdate tid payload None, CallStart tid None,
                                CallWaitForCompletion fu None, CallGet tid' resp e]))
    \<and> (\<forall>tid' resp st.
          last (Calls res) = CallGet tid' resp None
          \<and> Properties resp = Some (ScheduleTriggerKind st) \<longrightarrow>
          activated (Data res) = (RuntimeState st = TriggerRuntimeStateStarted))
    \<and> (\<forall>flt d0.
          Err (resourceDataFactoryTriggerScheduleCreateUpdate (simEnv flt) d0 []) = None \<longrightarrow>
          activated (Data (resourceDataFactoryTriggerScheduleCreateUpdate (simEnv flt) d0 []))
            = activated d0)"
proof -
  from assms have ok0: "Err (resourceDataFactoryTriggerScheduleCreateUpdate env d r) = None"
    by simp
  from CreateUpdate_success_resolve [OF ok0]
  obtain f where rs: "resolveDataFactoryId env d = Inr (Some f)" by blast
  define tid where "tid = NewTriggerID (AccountSubscriptionId env) (df_ResourceGroup f)
                    (df_FactoryName f) (name d)"
  define cs1 where "cs1 = snd (snd (checkExisting env d tid r))"
  define r1 where "r1 = fst (snd (checkExisting env d tid r))"
  define r2 where "r2 = snd (client_CreateOrUpdate env tid (buildTrigger env d) r1)"
  define r3 where "r3 = fst (snd (startIfActivated env d tid r2))"
  define cs3 where "cs3 = snd (snd (startIfActivated env d tid r2))"
  define rd where "rd = resourceDataFactoryTriggerScheduleRead env
                   (d\<lparr>ResourceId := TriggerId_ID env tid\<rparr>) r3"
  from CreateUpdate_success_steps [OF ok0 rs refl refl refl refl refl] have
    chk: "checkExisting env d tid r = (None, r1, cs1)" and
    st: "startIfActivated env d tid r2 = (None, r3, cs3)" and
    ok: "Err rd = None" and
    data: "Data res = Data rd" and
    calls: "Calls res = cs1 @ [CallCreateOrUpdate tid (buildTrigger env d) None] @ cs3 @ Calls rd"
    unfolding tid_def cs1_def r1_def r2_def r3_def cs3_def rd_def assms(1)
    by (simp_all add: prod_eq_iff)
  note rd = rd_def
  from ok rd Read_success_calls [of env "d\<lparr>ResourceId := TriggerId_ID env tid\<rparr>" r3]
  obtain tid' resp e where
    rcalls: "Calls rd = [CallGet tid' resp e]" by auto
  have cs1: "cs1 = [] \<or> (\<exists>resp err. cs1 = [CallGet tid resp err])"
    by (rule checkExisting_calls [OF chk])
  have act_off: "\<not> activated d \<longrightarrow>
            (\<forall>t e. CallStart t e \<notin> set (Calls res))
          \<and> (\<exists>pre tid payload tid' resp e.
                Calls res = pre @ [CallCreateOrUpdate tid payload None, CallGet tid' resp e])"
  proof
    assume na: "\<not> activated d"
    with st have "cs3 = []" by (simp add: startIfActivated_off)
    with calls rcalls have c: "Calls res =
        cs1 @ [CallCreateOrUpdate tid (buildTrigger env d) None, CallGet tid' resp e]"
      by simp
    have "\<forall>t e. CallStart t e \<notin> set (Calls res)"
      unfolding c using cs1 by (elim disjE exE) simp_all
    moreover have "\<exists>pre tid payload tid' resp e.
        Calls res = pre @ [CallCreateOrUpdate tid payload None, CallGet tid' resp e]"
      unfolding c by (intro exI) (rule refl)
    ultimately show "(\<forall>t e. CallStart t e \<notin> set (Calls res))
          \<and> (\<exists>pre tid payload tid' resp e.
                Calls res = pre @ [CallCreateOrUpdate tid payload None, CallGet tid' resp e])"
      by (rule conjI)
  qed
  have act_on: "activated d \<longrightarrow>
          (\<exists>pre tid payload fu tid' resp e.
             Calls res = pre @ [CallCreateOrUpdate tid payload None, CallStart tid None,
                                CallWaitForCompletion fu None, CallGet tid' resp e])"
  proof
    assume a: "activated d"
    from startIfActivated_on [OF a st] obtain fu where
      cs3e: "cs3 = [CallStart tid None, CallWaitForCompletion fu None]" by (elim exE)
    with calls rcalls have c: "Calls res =
        cs1 @ [CallCreateOrUpdate tid (buildTrigger env d) None, CallStart tid None,
               CallWaitForCompletion fu None, CallGet tid' resp e]"
      by simp
    show "\<exists>pre tid payload fu tid' resp e.
             Calls res = pre @ [CallCreateOrUpdate tid payload None, CallStart tid None,
                                CallWaitForCompletion fu None, CallGet tid' resp e]"
      unfolding c by (intro exI) (rule refl)
  qed
  have rb: "\<forall>tid' resp st.
          last (Calls res) = CallGet tid' resp None
          \<and> Properties resp = Some (ScheduleTriggerKind st) \<longrightarrow>
          activated (Data res) = (RuntimeState st = TriggerRuntimeStateStarted)"
  proof (intro allI impI)
    fix t rsp s
    assume h: "last (Calls res) = CallGet t rsp None \<and> Properties rsp = Some (ScheduleTriggerKind s)"
    from calls rcalls have "last (Calls res) = CallGet tid' resp e" by simp
    with h rcalls rd have c: "Calls (resourceDataFactoryTriggerScheduleRead env
        (d\<lparr>ResourceId := TriggerId_ID env tid\<rparr>) r3) = [CallGet t rsp None]" by simp
    from h have p: "Properties rsp = Some (ScheduleTriggerKind s)" by simp
    show "activated (Data res) = (RuntimeState s = TriggerRuntimeStateStarted)"
      using Read_activated [OF c p] data rd by simp
  qed
  have sim: "\<forall>flt d0.
          Err (resourceDataFactoryTriggerScheduleCreateUpdate (simEnv flt) d0 []) = None \<longrightarrow>
          activated (Data (resourceDataFactoryTriggerScheduleCreateUpdate (simEnv flt) d0 []))
            = activated d0"
    by (intro allI impI) (rule sim_create_reads_back)
  from act_off act_on rb sim show ?thesis by (intro conjI)
qed

theorem create_activation_witness:
  "Err (resourceDataFactoryTriggerScheduleCreateUpdate (simEnv NoFault) simData []) = None
   \<and> activated simData
   \<and> (\<exists>pre tid payload fu tid' resp e.
         Calls (resourceDataFactoryTriggerScheduleCreateUpdate (simEnv NoFault) simData [])
           = pre @ [CallCreateOrUpdate tid payload None, CallStart tid None,
                    CallWaitForCompletion fu None, CallGet tid' resp e])
   \<and> activated (Data (resourceDataFactoryTriggerScheduleCreateUpdate (simEnv NoFault) simData []))
   \<and> Err (resourceDataFactoryTriggerScheduleCreateUpdate (simEnv NoFault)
            (simData\<lparr>activated := False\<rparr>) []) = None
   \<and> (\<forall>t e. CallStart t e \<notin> set (Calls (resourceDataFactoryTriggerScheduleCreateUpdate
            (simEnv NoFault) (simData\<lparr>activated := False\<rparr>) [])))
   \<and> \<not> activated (Data (resourceDataFactoryTriggerScheduleCreateUpdate (simEnv NoFault)
            (simData\<lparr>activated := False\<rparr>) []))"
proof -
  have ok1: "Err (resourceDataFactoryTriggerScheduleCreateUpdate (simEnv NoFault) simData []) = None"
    by code_simp
  have a1: "activated simData" by code_simp
  note t1 = create_activation [OF refl ok1]
  from t1 ok1 a1
  have b1: "activated (Data (resourceDataFactoryTriggerScheduleCreateUpdate (simEnv NoFault) simData []))"
    by simp
  have ok2: "Err (resourceDataFactoryTriggerScheduleCreateUpdate (simEnv NoFault)
            (simData\<lparr>activated := False\<rparr>) []) = None"
    by code_simp
  have a2: "\<not> activated (simData\<lparr>activated := False\<rparr>)" by simp
  note t2 = create_activation [OF refl ok2]
  from t2 ok2 a2
  have b2: "\<not> activated (Data (resourceDataFactoryTriggerScheduleCreateUpdate (simEnv NoFault)
            (simData\<lparr>activated := False\<rparr>) []))"
    by simp
  from create_activation [OF refl ok1] a1
  have c1: "\<exists>pre tid payload fu tid' resp e.
         Calls (resourceDataFactoryTriggerScheduleCreateUpdate (simEnv NoFault) simData [])
           = pre @ [CallCreateOrUpdate tid payload None, CallStart tid None,
                    CallWaitForCompletion fu None, CallGet tid' resp e]"
    by (elim conjE) (erule mp)
  from create_activation [OF refl ok2] a2
  have c2: "\<forall>t e. CallStart t e \<notin> set (Calls (resourceDataFactoryTriggerScheduleCreateUpdate
            (simEnv NoFault) (simData\<lparr>activated := False\<rparr>) []))"
    by (elim conjE) (drule (1) mp, elim conjE)
  from ok1 a1 c1 b1 ok2 c2 b2 show ?thesis by (intro conjI)
qed

text \<open>
  Claim C8. A non-empty \<^verbatim>\<open>data_factory_id\<close> decides the factory, whether or not
  \<^verbatim>\<open>data_factory_name\<close> is set as well; the name is used only when the identifier is
  empty. The first remote call of the cycle addresses the trigger of the factory so
  chosen.
\<close>

theorem factory_identifier_takes_precedence:
  "(data_factory_id d \<noteq> [] \<longrightarrow>
      resolveDataFactoryId env d =
        (case parse_DataFactoryID env (data_factory_id d) of
           Inl e \<Rightarrow> Inl (ParseError e) | Inr parsed \<Rightarrow> Inr (Some parsed)))
   \<and> (data_factory_id d = [] \<and> data_factory_name d \<noteq> [] \<longrightarrow>
        resolveDataFactoryId env d =
          Inr (Some (NewDataFactoryID (AccountSubscriptionId env) (resource_group_name d)
                       (data_factory_name d))))
   \<and> (\<forall>f. resolveDataFactoryId env d = Inr (Some f) \<longrightarrow>
        (\<exists>c rest. Calls (resourceDataFactoryTriggerScheduleCreateUpdate env d r) = c # rest
           \<and> ((\<exists>resp e. c = CallGet (NewTriggerID (AccountSubscriptionId env)
                   (df_ResourceGroup f) (df_FactoryName f) (name d)) resp e)
              \<or> (\<exists>p e. c = CallCreateOrUpdate (NewTriggerID (AccountSubscriptionId env)
                   (df_ResourceGroup f) (df_FactoryName f) (name d)) p e))))"
proof (intro conjI impI allI)
  assume "data_factory_id d \<noteq> []"
  then show "resolveDataFactoryId env d =
        (case parse_DataFactoryID env (data_factory_id d) of
           Inl e \<Rightarrow> Inl (ParseError e) | Inr parsed \<Rightarrow> Inr (Some parsed))"
    by (simp add: resolveDataFactoryId_def)
next
  assume "data_factory_id d = [] \<and> data_factory_name d \<noteq> []"
  then show "resolveDataFactoryId env d =
          Inr (Some (NewDataFactoryID (AccountSubscriptionId env) (resource_group_name d)
                       (data_factory_name d)))"
    by (simp add: resolveDataFactoryId_def)
next
  fix f
  assume rs: "resolveDataFactoryId env d = Inr (Some f)"
  let ?tid = "NewTriggerID (AccountSubscriptionId env) (df_ResourceGroup f) (df_FactoryName f) (name d)"
  obtain e1 r1 cs1 where chk: "checkExisting env d ?tid r = (e1, r1, cs1)"
    by (cases "checkExisting env d ?tid r") 
  from checkExisting_calls [OF chk]
  have cs1: "cs1 = [] \<or> (\<exists>resp err. cs1 = [CallGet ?tid resp err])" .
  have e1: "e1 \<noteq> None \<longrightarrow> cs1 \<noteq> []"
    using chk by (auto simp: checkExisting_def Let_def split: if_splits prod.splits option.splits)
  show "\<exists>c rest. Calls (resourceDataFactoryTriggerScheduleCreateUpdate env d r) = c # rest
           \<and> ((\<exists>resp e. c = CallGet ?tid resp e) \<or> (\<exists>p e. c = CallCreateOrUpdate ?tid p e))"
    using cs1 e1
    by (auto simp: resourceDataFactoryTriggerScheduleCreateUpdate_def rs chk Let_def
        split: option.splits prod.splits)
qed

theorem factory_identifier_takes_precedence_witness:
  "data_factory_name (simData\<lparr>data_factory_id := ''sub/rg2/other''\<rparr>) \<noteq> []
   \<and> data_factory_id (simData\<lparr>data_factory_id := ''sub/rg2/other''\<rparr>) \<noteq> []
   \<and> resolveDataFactoryId (simEnv NoFault) (simData\<lparr>data_factory_id := ''sub/rg2/other''\<rparr>)
       = Inr (Some (NewDataFactoryID ''sub'' ''rg2'' ''other''))
   \<and> resolveDataFactoryId (simEnv NoFault) simData
       = Inr (Some (NewDataFactoryID ''sub'' ''rg'' ''df''))"
proof -
  let ?d = "simData\<lparr>data_factory_id := ''sub/rg2/other''\<rparr>"
  have n: "data_factory_name ?d \<noteq> []" by code_simp
  have i: "data_factory_id ?d \<noteq> []" by code_simp
  have q: "parse_DataFactoryID (simEnv NoFault) (data_factory_id ?d)
      = Inr (NewDataFactoryID ''sub'' ''rg2'' ''other'')"
    by code_simp
  have m: "data_factory_id simData = [] \<and> data_factory_name simData \<noteq> []" by code_simp
  have e: "NewDataFactoryID (AccountSubscriptionId (simEnv NoFault)) (resource_group_name simData)
              (data_factory_name simData) = NewDataFactoryID ''sub'' ''rg'' ''df''"
    by code_simp
  from factory_identifier_takes_precedence [of ?d "simEnv NoFault" "[]", THEN conjunct1, THEN mp, OF i]
  have a: "resolveDataFactoryId (simEnv NoFault) ?d
       = Inr (Some (NewDataFactoryID ''sub'' ''rg2'' ''other''))"
    by (simp only: q sum.case)
  from factory_identifier_takes_precedence [of simData "simEnv NoFault" "[]", THEN conjunct2,
      THEN conjunct1, THEN mp, OF m]
  have b: "resolveDataFactoryId (simEnv NoFault) simData
       = Inr (Some (NewDataFactoryID ''sub'' ''rg'' ''df''))"
    by (simp only: e)
  from n i a b show ?thesis by (intro conjI)
qed

text \<open>
  Claim C9. With both selectors empty the factory identifier is still nil when its
  fields are read: the operation stops on that nil dereference, before any remote call
  and with the resource data and the remote state untouched. With at least one selector
  set, that dereference never fails.
\<close>

theorem nil_factory_id:
  "(data_factory_name d = [] \<and> data_factory_id d = [] \<longrightarrow>
      resourceDataFactoryTriggerScheduleCreateUpdate env d r
        = \<lparr>Err = Some (NilDereference ''dataFactoryId''), Data = d, Remote = r, Calls = []\<rparr>)
   \<and> (data_factory_name d \<noteq> [] \<or> data_factory_id d \<noteq> [] \<longrightarrow>
        Err (resourceDataFactoryTriggerScheduleCreateUpdate env d r)
          \<noteq> Some (NilDereference ''dataFactoryId''))"
proof (intro conjI impI)
  assume "data_factory_name d = [] \<and> data_factory_id d = []"
  then show "resourceDataFactoryTriggerScheduleCreateUpdate env d r
        = \<lparr>Err = Some (NilDereference ''dataFactoryId''), Data = d, Remote = r, Calls = []\<rparr>"
    by (simp add: resourceDataFactoryTriggerScheduleCreateUpdate_def resolve_both_empty)
next
  assume "data_factory_name d \<noteq> [] \<or> data_factory_id d \<noteq> []"
  then have nn: "resolveDataFactoryId env d \<noteq> Inr None"
    by (rule resolve_not_nil)
  show "Err (resourceDataFactoryTriggerScheduleCreateUpdate env d r)
          \<noteq> Some (NilDereference ''dataFactoryId'')"
    using nn
    by (auto simp: resourceDataFactoryTriggerScheduleCreateUpdate_def Let_def
        split: sum.splits prod.splits option.splits
        dest: resolve_error checkExisting_error startIfActivated_error Read_error)
qed

theorem nil_factory_id_witness:
  "data_factory_name (simData\<lparr>data_factory_name := []\<rparr>) = []
   \<and> data_factory_id (simData\<lparr>data_factory_name := []\<rparr>) = []
   \<and> resourceDataFactoryTriggerScheduleCreateUpdate (simEnv NoFault)
        (simData\<lparr>data_factory_name := []\<rparr>) []
       = \<lparr>Err = Some (NilDereference ''dataFactoryId''),
          Data = simData\<lparr>data_factory_name := []\<rparr>, Remote = [], Calls = []\<rparr>
   \<and> Err (resourceDataFactoryTriggerScheduleCreateUpdate (simEnv NoFault) simData [])
       \<noteq> Some (NilDereference ''dataFactoryId'')"
proof -
  let ?d = "simData\<lparr>data_factory_name := []\<rparr>"
  have h: "data_factory_name ?d = [] \<and> data_factory_id ?d = []" by code_simp
  have g: "data_factory_name simData \<noteq> [] \<or> data_factory_id simData \<noteq> []" by code_simp
  note a = nil_factory_id [of ?d "simEnv NoFault" "[]", THEN conjunct1, THEN mp, OF h]
  note b = nil_factory_id [of simData "simEnv NoFault" "[]", THEN conjunct2, THEN mp, OF g]
  from h a b show ?thesis by (intro conjI) simp_all
qed

subsection \<open>Reading\<close>

text \<open>
  Claim C7, as stated, fails: when the kind does not match, the read has already written
  the name, the resource group, the factory name and the factory identifier into the
  resource data before it returns the classification error.
\<close>

theorem read_kind_mismatch_counterexample:
  "Err (resourceDataFactoryTriggerScheduleRead (simEnv NoFault) simStored simRemoteOther)
     = Some (ClassifyingError simTrigger ''ScheduleTrigger''
               ''Microsoft.DataFactory/factories/triggers'')
   \<and> name simStored = ''t''
   \<and> name (Data (resourceDataFactoryTriggerScheduleRead (simEnv NoFault) simStored
                    simRemoteOther)) = ''T''
   \<and> data_factory_id simStored = []
   \<and> data_factory_id (Data (resourceDataFactoryTriggerScheduleRead (simEnv NoFault) simStored
                               simRemoteOther)) = ''sub/rg/df''"
  by code_simp

text \<open>
  Claim C7, amended. On a read that finds an object of another kind (and with a resource
  type to report), the result is the classification error; by then the four identity fields
  have been written from the response and the parsed identifier, and no field of the
  trigger itself has been touched. An object of the schedule kind never gives a
  classification error.
\<close>

theorem read_kind_mismatch:
  assumes "parse_TriggerID env (ResourceId d) = Inr tid"
    and "client_Get env tid r = ((resp, None), r1)"
  shows "(\<forall>k t. Properties resp = Some (OtherTriggerKind k) \<and> ResourceType resp = Some t \<longrightarrow>
            resourceDataFactoryTriggerScheduleRead env d r =
              \<lparr>Err = Some (ClassifyingError tid TypeBasicTriggerTypeScheduleTrigger t),
               Data = d\<lparr>name := stringValue (ResourceName resp),
                         resource_group_name := ResourceGroup tid,
                         data_factory_name := FactoryName tid,
                         data_factory_id := DataFactoryId_ID env
                           (NewDataFactoryID (SubscriptionId tid) (ResourceGroup tid)
                              (FactoryName tid))\<rparr>,
               Remote = r1, Calls = [CallGet tid resp None]\<rparr>)
    \<and> (\<forall>st. Properties resp = Some (ScheduleTriggerKind st) \<longrightarrow>
          (\<forall>a b c. Err (resourceDataFactoryTriggerScheduleRead env d r)
                      \<noteq> Some (ClassifyingError a b c)))"
proof (intro conjI allI impI)
  fix k t
  assume "Properties resp = Some (OtherTriggerKind k) \<and> ResourceType resp = Some t"
  with assms show "resourceDataFactoryTriggerScheduleRead env d r =
              \<lparr>Err = Some (ClassifyingError tid TypeBasicTriggerTypeScheduleTrigger t),
               Data = d\<lparr>name := stringValue (ResourceName resp),
                         resource_group_name := ResourceGroup tid,
                         data_factory_name := FactoryName tid,
                         data_factory_id := DataFactoryId_ID env
                           (NewDataFactoryID (SubscriptionId tid) (ResourceGroup tid)
                              (FactoryName tid))\<rparr>,
               Remote = r1, Calls = [CallGet tid resp None]\<rparr>"
    by (simp add: resourceDataFactoryTriggerScheduleRead_def Let_def)
next
  fix st a b c
  assume p: "Properties resp = Some (ScheduleTriggerKind st)"
  show "Err (resourceDataFactoryTriggerScheduleRead env d r) \<noteq> Some (ClassifyingError a b c)"
    unfolding Read_found_schedule [OF assms p]
    by (auto dest: setScheduleTrigger_fst_error)
qed

theorem read_kind_mismatch_witness:
  "parse_TriggerID (simEnv NoFault) (ResourceId simStored) = Inr simTrigger
   \<and> Properties (simObject (OtherTriggerKind ''BlobEventsTrigger'')\<lparr>StatusCode := Some 200\<rparr>)
       = Some (OtherTriggerKind ''BlobEventsTrigger'')
   \<and> resourceDataFactoryTriggerScheduleRead (simEnv NoFault) simStored simRemoteOther
       = \<lparr>Err = Some (ClassifyingError simTrigger TypeBasicTriggerTypeScheduleTrigger
                       ''Microsoft.DataFactory/factories/triggers''),
          Data = simStored\<lparr>name := ''T'', resource_group_name := ''rg'',
                            data_factory_name := ''df'', data_factory_id := ''sub/rg/df''\<rparr>,
          Remote = simRemoteOther,
          Calls = [CallGet simTrigger
                     (simObject (OtherTriggerKind ''BlobEventsTrigger'')\<lparr>StatusCode := Some 200\<rparr>)
                     None]\<rparr>"
proof -
  have p: "parse_TriggerID (simEnv NoFault) (ResourceId simStored) = Inr simTrigger"
    by code_simp
  have g: "client_Get (simEnv NoFault) simTrigger simRemoteOther
      = ((simObject (OtherTriggerKind ''BlobEventsTrigger'')\<lparr>StatusCode := Some 200\<rparr>, None),
         simRemoteOther)"
    by code_simp
  have k: "Properties (simObject (OtherTriggerKind ''BlobEventsTrigger'')\<lparr>StatusCode := Some 200\<rparr>)
       = Some (OtherTriggerKind ''BlobEventsTrigger'')
     \<and> ResourceType (simObject (OtherTriggerKind ''BlobEventsTrigger'')\<lparr>StatusCode := Some 200\<rparr>)
       = Some ''Microsoft.DataFactory/factories/triggers''"
    by code_simp
  have v: "stringValue (ResourceName
              (simObject (OtherTriggerKind ''BlobEventsTrigger'')\<lparr>StatusCode := Some 200\<rparr>)) = ''T''
     \<and> ResourceGroup simTrigger = ''rg'' \<and> FactoryName simTrigger = ''df''
     \<and> DataFactoryId_ID (simEnv NoFault)
           (NewDataFactoryID (SubscriptionId simTrigger) ''rg'' ''df'') = ''sub/rg/df''"
    by code_simp
  from read_kind_mismatch [OF p g, THEN conjunct1, THEN spec, THEN spec, THEN mp, OF k]
  show ?thesis using p k v by simp
qed




end
